theory Spec2Isabelle
  imports Complex_Main "HOL-Library.Sublist"
begin

section \<open>Live engagement telemetry and quiz synchronisation\<close>

text \<open>
  A shallow embedding of the student session page
  (\<^verbatim>\<open>frontend/src/app/student/sessions/[id]/page.tsx\<close>) and of the instructor session
  page of the classroom engagement front end.  A JavaScript \<^verbatim>\<open>number\<close> is modelled as a
  \<^typ>\<open>real\<close>: IEEE rounding is not modelled, and \<^verbatim>\<open>NaN\<close> is modelled by \<open>None\<close> at the
  one place where the code tests for it.  Values that are \<^verbatim>\<open>undefined\<close> or \<^verbatim>\<open>null\<close> are \<open>None\<close>.
\<close>

type_synonym number = real

subsection \<open>Quiz checkpoints and their remaining time\<close>

record SessionQuizItem =
  quiz_id :: nat
  quiz_session_id :: nat
  question :: string
  options :: "string list"
  duration_seconds :: "number option"
  expires_at :: "string option"
  remaining_seconds :: "number option"
  is_active :: bool
  created_at :: string
  total_responses :: nat
  correct_responses :: nat

text \<open>
  \<^verbatim>\<open>quizRemainingSeconds(quiz, nowMs)\<close>.  The first argument stands for
  \<^verbatim>\<open>new Date(s).getTime()\<close>: it yields the epoch milliseconds of a date string, or \<open>None\<close> where
  JavaScript yields \<^verbatim>\<open>NaN\<close>.  The test \<^verbatim>\<open>if (quiz.expires_at)\<close> is JavaScript truthiness: it
  fails for \<^verbatim>\<open>undefined\<close>, \<^verbatim>\<open>null\<close> and the empty string.  The same function, letter for
  letter, is declared again in the instructor page.
\<close>

definition quizRemainingSeconds ::
  "(string \<Rightarrow> number option) \<Rightarrow> SessionQuizItem \<Rightarrow> number \<Rightarrow> number option" where
  "quizRemainingSeconds getTime quiz nowMs =
     (let fallback =
            (case remaining_seconds quiz of
               Some r \<Rightarrow> Some (max r 0)
             | None \<Rightarrow> None)
      in case expires_at quiz of
           None \<Rightarrow> fallback
         | Some s \<Rightarrow>
             if s = [] then fallback
             else (case getTime s of
                     Some expiresAtMs \<Rightarrow>
                       Some (max (real_of_int \<lfloor>(expiresAtMs - nowMs) / 1000\<rfloor>) 0)
                   | None \<Rightarrow> fallback))"

text \<open>A date parser for concrete runs: it knows one ISO timestamp and nothing else.\<close>

definition sampleGetTime :: "string \<Rightarrow> number option" where
  "sampleGetTime s =
     (if s = ''2026-01-01T00:01:00Z'' then Some 1767225660000 else None)"

definition sampleQuiz :: SessionQuizItem where
  "sampleQuiz =
     \<lparr> quiz_id = 7, quiz_session_id = 3, question = ''2 + 2 = ?'',
       options = [''3'', ''4''], duration_seconds = Some 60,
       expires_at = Some ''2026-01-01T00:01:00Z'', remaining_seconds = Some 42,
       is_active = True, created_at = ''2026-01-01T00:00:00Z'',
       total_responses = 0, correct_responses = 0 \<rparr>"

subsection \<open>The student session page: state\<close>

record SessionData =
  session_id :: nat
  status :: string
  tracking_enabled :: bool

datatype telemetry_state = TELEMETRY_IDLE | TELEMETRY_ACTIVE | TELEMETRY_ERROR
datatype camera_state = CAMERA_IDLE | CAMERA_ACTIVE | CAMERA_DENIED | CAMERA_ERROR
datatype socket_state = DISCONNECTED | CONNECTING | CONNECTED | SOCKET_ERROR
datatype ready_state = WS_CONNECTING | WS_OPEN | WS_CLOSING | WS_CLOSED
datatype feedback_type = SUCCESS | ERROR | INFO

text \<open>
  A \<^verbatim>\<open>MediaStream\<close> is its identity and the liveness (\<^verbatim>\<open>readyState === 'live'\<close>) of each of
  its video tracks; the page requests no audio.  A \<^verbatim>\<open>WebSocket\<close> is its identity, its URL
  and its \<^verbatim>\<open>readyState\<close>.  The hidden video element is its \<^verbatim>\<open>srcObject\<close>.
\<close>

record MediaStream =
  stream_id :: nat
  video_tracks :: "bool list"

record WebSocket =
  ws_id :: nat
  ws_url :: string
  readyState :: ready_state

record video_element =
  srcObject :: "nat option"

record vision_sample =
  image_base64 :: string
  participation :: number
  attendance_consistency :: number
  interaction_recency_seconds :: number
  interaction_events :: nat
  movement_intensity :: number

datatype device_call = GetUserMedia | StopTracks nat

datatype http_request =
    ListActiveSessionQuizzes nat
  | GetMySessionQuizStats nat
  | SubmitSessionQuizAnswer nat nat nat

record StudentQuizStats =
  attempted :: nat
  correct :: nat
  accuracy :: number

text \<open>
  The component state (\<^verbatim>\<open>useState\<close>) and the refs (\<^verbatim>\<open>useRef\<close>) of
  \<^verbatim>\<open>StudentSessionDetailPage\<close>, followed by what the page has done to the outside world:
  the pending recovery timeouts and the last timeout id handed out, the calls made to the
  camera, the URLs given to \<^verbatim>\<open>new WebSocket\<close>, the messages passed to \<^verbatim>\<open>socket.send\<close> and the
  REST requests issued.  A callback reads every state variable at its current value, and
  each handler runs to completion before the next event is taken; the one place where a run
  is also written with other events in between is the \<^verbatim>\<open>await\<close> inside \<^verbatim>\<open>startCamera\<close>.
\<close>

record student_page =
  session :: "SessionData option"
  joined :: bool
  showMeeting :: bool
  telemetryState :: telemetry_state
  telemetryMessage :: string
  cameraState :: camera_state
  cameraMessage :: string
  socketState :: socket_state
  activeQuizzes :: "SessionQuizItem list"
  quizStats :: StudentQuizStats
  answeringQuizId :: "nat option"
  selectedQuizOptions :: "nat \<rightharpoonup> nat"
  quizFeedback :: "(feedback_type \<times> string) option"
  quizClock :: number
  joinStartedAtRef :: "number option"
  lastInteractionRef :: number
  interactionCountRef :: nat
  hiddenAccumulatedRef :: number
  hiddenStartedAtRef :: "number option"
  focusedRef :: bool
  answeredQuizAtRef :: "number option"
  videoRef :: "video_element option"
  cameraStreamRef :: "MediaStream option"
  cameraRecoveryTimerRef :: "nat option"
  engagementWsRef :: "WebSocket option"
  timers :: "nat list"
  timer_seq :: nat
  device_log :: "device_call list"
  sockets_opened :: "string list"
  sent :: "(nat \<times> vision_sample) list"
  requests :: "http_request list"

text \<open>A thrown value: \<open>Some m\<close> is an \<^verbatim>\<open>Error\<close> with message \<open>m\<close>, \<open>None\<close> anything else.\<close>

type_synonym thrown = "string option"

definition clamp :: "number \<Rightarrow> number" where
  "clamp v = max 0 (min 1 v)"

text \<open>\<^verbatim>\<open>haystack.includes(needle)\<close>, and \<^verbatim>\<open>toLowerCase\<close> on ASCII text.\<close>

definition str_includes :: "string \<Rightarrow> string \<Rightarrow> bool" where
  "str_includes haystack needle = sublist needle haystack"

definition toLowerCase :: "string \<Rightarrow> string" where
  "toLowerCase s =
     map (\<lambda>c. let n = (of_char c :: nat)
              in if 65 \<le> n \<and> n \<le> 90 then char_of (n + 32) else c) s"

subsection \<open>The camera\<close>

text \<open>
  \<^verbatim>\<open>stopCamera\<close>.  The timer handle is tested by truthiness (the browser hands out positive
  integers); \<^verbatim>\<open>clearTimeout\<close> drops the pending timeout; stopping the tracks also detaches
  their handlers.
\<close>

definition stopCamera :: "student_page \<Rightarrow> student_page" where
  "stopCamera st =
     (let st1 =
            (case cameraRecoveryTimerRef st of
               None \<Rightarrow> st
             | Some t \<Rightarrow>
                 if t = 0 then st
                 else st\<lparr>timers := removeAll t (timers st), cameraRecoveryTimerRef := None\<rparr>);
          st2 =
            (case cameraStreamRef st1 of
               None \<Rightarrow> st1
             | Some stream \<Rightarrow>
                 st1\<lparr>device_log := device_log st1 @ [StopTracks (stream_id stream)],
                     cameraStreamRef := None\<rparr>)
      in case videoRef st2 of
           None \<Rightarrow> st2
         | Some video \<Rightarrow> st2\<lparr>videoRef := Some (video\<lparr>srcObject := None\<rparr>)\<rparr>)"

text \<open>
  What one call of \<^verbatim>\<open>startCamera\<close> meets: whether \<^verbatim>\<open>navigator.mediaDevices.getUserMedia\<close>
  exists, and what the request settles to.
\<close>

record camera_env =
  mediaDevices :: bool
  getUserMedia :: "thrown + MediaStream"

text \<open>
  \<^verbatim>\<open>startCamera\<close> is asynchronous: it runs up to \<^verbatim>\<open>await getUserMedia(...)\<close>, and goes on when
  that request settles; other handlers can run in between, and they still see
  \<^verbatim>\<open>cameraStreamRef\<close> empty.  \<open>startCamera_request\<close> is the part before the \<^verbatim>\<open>await\<close>; the flag
  tells whether a request was issued.  \<open>startCamera_settle\<close> is the part after it: it stores
  the stream over whatever the handle holds by then.  The handlers \<^verbatim>\<open>onended\<close>, \<^verbatim>\<open>onmute\<close> and
  \<^verbatim>\<open>onunmute\<close> sit on the first video track of the stream held in \<^verbatim>\<open>cameraStreamRef\<close>:
  \<^verbatim>\<open>startCamera\<close> attaches them when it stores the stream, and \<^verbatim>\<open>stopCamera\<close> detaches them when
  it drops it.
\<close>

definition startCamera_request :: "camera_env \<Rightarrow> student_page \<Rightarrow> student_page \<times> bool" where
  "startCamera_request env st =
     (if (case cameraStreamRef st of
            None \<Rightarrow> False
          | Some existingStream \<Rightarrow> list_ex (\<lambda>live. live) (video_tracks existingStream))
      then (st\<lparr>cameraState := CAMERA_ACTIVE\<rparr>, False)
      else
        (let st1 = (if cameraStreamRef st \<noteq> None then stopCamera st else st) in
         if \<not> mediaDevices env
         then (st1\<lparr>cameraState := CAMERA_ERROR,
                   cameraMessage :=
                     ''Camera API unavailable. Real-only signal mode is blocked.''\<rparr>,
               False)
         else (st1\<lparr>device_log := device_log st1 @ [GetUserMedia]\<rparr>, True)))"

definition startCamera_settle :: "(thrown + MediaStream) \<Rightarrow> student_page \<Rightarrow> student_page" where
  "startCamera_settle settled st =
     (case settled of
        Inr stream \<Rightarrow>
          st\<lparr>cameraStreamRef := Some stream,
             videoRef := map_option (\<lambda>v. v\<lparr>srcObject := Some (stream_id stream)\<rparr>) (videoRef st),
             cameraState := CAMERA_ACTIVE,
             cameraMessage := ''Live camera attention sampling enabled''\<rparr>
      | Inl err \<Rightarrow>
          (let message = (case err of Some m \<Rightarrow> m | None \<Rightarrow> ''Camera permission denied'');
               lowered = toLowerCase message
           in stopCamera
                (if str_includes lowered ''permission'' \<or> str_includes lowered ''denied''
                    \<or> str_includes lowered ''notallowed''
                 then st\<lparr>cameraState := CAMERA_DENIED,
                         cameraMessage :=
                           ''Camera permission denied. Real-only signal mode is blocked.''\<rparr>
                 else st\<lparr>cameraState := CAMERA_ERROR,
                         cameraMessage :=
                           ''Unable to start camera. Real-only signal mode is blocked.''\<rparr>)))"

text \<open>
  A call of \<^verbatim>\<open>startCamera\<close> during which nothing else runs: the request, and at once its
  settlement.  A run in which another call starts while the request is pending is not of
  this form; it is written with the two halves.
\<close>

definition startCamera :: "camera_env \<Rightarrow> student_page \<Rightarrow> student_page" where
  "startCamera env st =
     (case startCamera_request env st of
        (st1, pending) \<Rightarrow>
          if pending then startCamera_settle (getUserMedia env) st1 else st1)"




subsection \<open>The engagement socket (student side)\<close>

text \<open>
  What one call of \<^verbatim>\<open>connectEngagementSocket\<close> meets.  \<^verbatim>\<open>api.getEngagementWebSocketUrl\<close>
  lives in \<^verbatim>\<open>@/lib/api\<close>, outside the sources at hand, and is taken as a parameter;
  \<^verbatim>\<open>new WebSocket(url)\<close> either throws or yields a socket with a new identity.
\<close>

record connect_env =
  getEngagementWebSocketUrl :: "nat \<Rightarrow> string"
  newWebSocket :: "thrown + nat"

definition connectEngagementSocket :: "connect_env \<Rightarrow> student_page \<Rightarrow> student_page" where
  "connectEngagementSocket env st =
     (case session st of
        None \<Rightarrow> st
      | Some sess \<Rightarrow>
          if \<not> joined st \<or> status sess \<noteq> ''LIVE'' then st
          else if (case engagementWsRef st of
                     None \<Rightarrow> False
                   | Some existing \<Rightarrow>
                       readyState existing = WS_OPEN \<or> readyState existing = WS_CONNECTING)
          then st
          else
            (let wsUrl = getEngagementWebSocketUrl env (session_id sess) in
             if \<not> str_includes wsUrl ''token=''
             then st\<lparr>socketState := SOCKET_ERROR,
                     telemetryState := TELEMETRY_ERROR,
                     telemetryMessage := ''Missing auth token for engagement socket''\<rparr>
             else
               (let st1 = st\<lparr>socketState := CONNECTING,
                              sockets_opened := sockets_opened st @ [wsUrl]\<rparr> in
                case newWebSocket env of
                  Inr i \<Rightarrow>
                    st1\<lparr>engagementWsRef :=
                          Some \<lparr>ws_id = i, ws_url = wsUrl, readyState = WS_CONNECTING\<rparr>\<rparr>
                | Inl err \<Rightarrow>
                    st1\<lparr>socketState := SOCKET_ERROR,
                        telemetryState := TELEMETRY_ERROR,
                        telemetryMessage := ''Unable to open engagement socket''\<rparr>)))"

subsection \<open>The activity monitor and the signal composer\<close>

definition registerInteraction :: "number \<Rightarrow> student_page \<Rightarrow> student_page" where
  "registerInteraction now st =
     st\<lparr>lastInteractionRef := now, interactionCountRef := interactionCountRef st + 1\<rparr>"

text \<open>
  \<^verbatim>\<open>Number(x.toFixed(digits))\<close>: the nearest multiple of \<open>10\<^sup>-\<^sup>d\<close>, the larger one on a tie,
  computed on the absolute value, as ECMAScript's \<^verbatim>\<open>Number.prototype.toFixed\<close> prescribes.
\<close>

definition toFixed :: "nat \<Rightarrow> number \<Rightarrow> number" where
  "toFixed digits x =
     (let r = (\<lambda>y. real_of_int \<lfloor>y * 10 ^ digits + 1 / 2\<rfloor> / 10 ^ digits)
      in if x < 0 then - r (- x) else r x)"

record document_env =
  visibilityState_visible :: bool
  hasFocus :: bool

record capture_env =
  canvas_present :: bool
  video_readyState :: nat
  context2d :: bool
  toBlob :: "string option"

text \<open>\<^verbatim>\<open>captureVisionFrame\<close>: the JPEG file drawn from the video element, or \<^verbatim>\<open>null\<close>.\<close>

definition captureVisionFrame :: "capture_env \<Rightarrow> student_page \<Rightarrow> string option" where
  "captureVisionFrame env st =
     (if videoRef st = None \<or> \<not> canvas_present env \<or> video_readyState env < 2 then None
      else if \<not> context2d env then None
      else toBlob env)"

text \<open>
  What one compose cycle meets, in the order the code asks: the two readings of
  \<^verbatim>\<open>Date.now()\<close>, the document (absent when \<^verbatim>\<open>typeof document === 'undefined'\<close>), the camera
  when the cycle reacquires it, the socket constructor, the first capture, the camera and
  the capture of the retry, the \<^verbatim>\<open>FileReader\<close>, whether \<^verbatim>\<open>socket.send\<close> throws, and the
  wall-clock text of the status line.
\<close>

record telemetry_env =
  now_first :: number
  now_ms :: number
  document :: "document_env option"
  camera_reconnect :: camera_env
  connect :: connect_env
  capture_first :: capture_env
  camera_retry :: camera_env
  capture_second :: capture_env
  readAsDataURL :: "string \<Rightarrow> string option"
  socket_send :: "thrown option"
  timeString :: string

text \<open>
  The object literal given to \<^verbatim>\<open>socket.send\<close>, with the estimates computed at the head of
  \<^verbatim>\<open>sendTelemetrySignal\<close> from the refs \<open>st\<close>; \<open>events\<close> is \<^verbatim>\<open>interactionCountRef.current\<close> as
  read when the message is built.
\<close>

definition visionSample :: "telemetry_env \<Rightarrow> student_page \<Rightarrow> string \<Rightarrow> nat \<Rightarrow> vision_sample" where
  "visionSample env st imageBase64 events =
     (let now = now_ms env;
          joinAt = (case joinStartedAtRef st of
                      None \<Rightarrow> now
                    | Some j \<Rightarrow> if j = 0 then now else j);
          sessionElapsedMs = max (now - joinAt) 1;
          hiddenMs = hiddenAccumulatedRef st
                       + (case hiddenStartedAtRef st of Some h \<Rightarrow> now - h | None \<Rightarrow> 0);
          visibleRatio = clamp (1 - hiddenMs / sessionElapsedMs);
          isVisible = (case document env of
                         None \<Rightarrow> True
                       | Some d \<Rightarrow> visibilityState_visible d);
          isFocused = (case document env of
                         None \<Rightarrow> True
                       | Some d \<Rightarrow> isVisible \<and> focusedRef st \<and> hasFocus d);
          recencySeconds = (now - lastInteractionRef st) / 1000;
          interactionBurst = clamp (real (interactionCountRef st) / 10);
          answeredRecently = (case answeredQuizAtRef st of
                                None \<Rightarrow> False
                              | Some a \<Rightarrow> now - a < 3 * 60 * 1000);
          movementIntensity =
            clamp (interactionBurst * 0.65
                   + (if isFocused then 0.2 else 0.06)
                   + (if isVisible then 0.09 else 0));
          participationEstimate =
            clamp (0.18
                   + interactionBurst * 0.5
                   + (if answeredRecently then 0.22 else 0)
                   + (if showMeeting st then 0.08 else 0)
                   + (if isFocused then 0.05 else 0));
          attendanceConsistency = clamp (0.55 + visibleRatio * 0.45)
      in \<lparr> image_base64 = imageBase64,
           participation = toFixed 3 participationEstimate,
           attendance_consistency = toFixed 3 attendanceConsistency,
           interaction_recency_seconds = toFixed 1 recencySeconds,
           interaction_events = events,
           movement_intensity = toFixed 3 movementIntensity \<rparr>)"

text \<open>
  \<^verbatim>\<open>sendTelemetrySignal\<close>, one compose cycle run to completion.  Inside the \<^verbatim>\<open>try\<close> only
  \<^verbatim>\<open>socket.send\<close> is taken to throw: \<^verbatim>\<open>startCamera\<close> catches its own failures, and the capture
  and the encoder report failure by \<^verbatim>\<open>null\<close>.
\<close>

definition sendTelemetrySignal :: "telemetry_env \<Rightarrow> student_page \<Rightarrow> student_page" where
  "sendTelemetrySignal env st =
     (case session st of
        None \<Rightarrow> st
      | Some sess \<Rightarrow>
          if \<not> joined st \<or> status sess \<noteq> ''LIVE'' then st
          else
            (let st0 = (if joinStartedAtRef st = None
                        then st\<lparr>joinStartedAtRef := Some (now_first env)\<rparr> else st);
                 st1 = (if cameraState st0 \<noteq> CAMERA_ACTIVE \<or> cameraStreamRef st0 = None
                        then startCamera (camera_reconnect env)
                               (st0\<lparr>telemetryState := TELEMETRY_ERROR,
                                    telemetryMessage := ''Camera is reconnecting...''\<rparr>)
                        else st0)
             in case engagementWsRef st1 of
                  None \<Rightarrow>
                    connectEngagementSocket (connect env)
                      (st1\<lparr>telemetryState := TELEMETRY_ERROR,
                           telemetryMessage := ''Engagement socket is disconnected''\<rparr>)
                | Some socket \<Rightarrow>
                    if readyState socket \<noteq> WS_OPEN
                    then connectEngagementSocket (connect env)
                           (st1\<lparr>telemetryState := TELEMETRY_ERROR,
                                telemetryMessage := ''Engagement socket is disconnected''\<rparr>)
                    else
                      (let first = captureVisionFrame (capture_first env) st1;
                           st2 = (if first = None then startCamera (camera_retry env) st1 else st1);
                           frame = (if first = None
                                    then captureVisionFrame (capture_second env) st2 else first)
                       in case frame of
                            None \<Rightarrow>
                              st2\<lparr>telemetryState := TELEMETRY_ERROR,
                                  telemetryMessage :=
                                    ''Unable to capture camera frame. Check camera visibility.''\<rparr>
                          | Some file \<Rightarrow>
                              (case readAsDataURL env file of
                                 None \<Rightarrow>
                                   st2\<lparr>telemetryState := TELEMETRY_ERROR,
                                       telemetryMessage := ''Unable to encode camera frame''\<rparr>
                               | Some imageBase64 \<Rightarrow>
                                   if imageBase64 = []
                                   then st2\<lparr>telemetryState := TELEMETRY_ERROR,
                                            telemetryMessage := ''Unable to encode camera frame''\<rparr>
                                   else
                                     (case socket_send env of
                                        Some err \<Rightarrow>
                                          st2\<lparr>telemetryState := TELEMETRY_ERROR,
                                              telemetryMessage :=
                                                (case err of
                                                   Some m \<Rightarrow> m
                                                 | None \<Rightarrow> ''Unable to send engagement sample'')\<rparr>
                                      | None \<Rightarrow>
                                          st2\<lparr>sent := sent st2
                                                 @ [(ws_id socket,
                                                     visionSample env st0 imageBase64
                                                       (interactionCountRef st2))],
                                              telemetryState := TELEMETRY_ACTIVE,
                                              telemetryMessage :=
                                                ''Vision sample queued: '' @ timeString env,
                                              interactionCountRef := 0\<rparr>)))))"



subsection \<open>The quiz synchroniser (student side)\<close>

text \<open>\<^verbatim>\<open>loadActiveQuizzes\<close>: \<^verbatim>\<open>data.quizzes || []\<close> on success, the empty list on failure.\<close>

definition loadActiveQuizzes ::
  "(thrown + SessionQuizItem list option) \<Rightarrow> student_page \<Rightarrow> student_page" where
  "loadActiveQuizzes response st =
     (case session st of
        None \<Rightarrow> st
      | Some sess \<Rightarrow>
          st\<lparr>requests := requests st @ [ListActiveSessionQuizzes (session_id sess)],
             activeQuizzes :=
               (case response of
                  Inr (Some quizzes) \<Rightarrow> quizzes
                | Inr None \<Rightarrow> []
                | Inl err \<Rightarrow> [])\<rparr>)"

definition loadQuizStats :: "(thrown + StudentQuizStats) \<Rightarrow> student_page \<Rightarrow> student_page" where
  "loadQuizStats response st =
     (case session st of
        None \<Rightarrow> st
      | Some sess \<Rightarrow>
          if \<not> joined st then st
          else
            st\<lparr>requests := requests st @ [GetMySessionQuizStats (session_id sess)],
               quizStats :=
                 (case response of
                    Inr stats \<Rightarrow> stats
                  | Inl err \<Rightarrow> \<lparr>attempted = 0, correct = 0, accuracy = 0\<rparr>)\<rparr>)"

text \<open>The one-second interval: \<^verbatim>\<open>setQuizClock(Date.now())\<close>.\<close>

definition quizClock_tick :: "number \<Rightarrow> student_page \<Rightarrow> student_page" where
  "quizClock_tick now st = st\<lparr>quizClock := now\<rparr>"

text \<open>
  What the page shows for each tracked checkpoint:
  \<^verbatim>\<open>activeQuizzes.map((quiz) => quizRemainingSeconds(quiz, quizClock))\<close>.
\<close>

definition remainingTimes :: "(string \<Rightarrow> number option) \<Rightarrow> student_page \<Rightarrow> number option list" where
  "remainingTimes getTime st =
     map (\<lambda>quiz. quizRemainingSeconds getTime quiz (quizClock st)) (activeQuizzes st)"

definition optionLabel :: "nat \<Rightarrow> string" where
  "optionLabel index = [char_of (65 + index)]"

record quiz_answer_result =
  is_correct :: bool
  correct_option_index :: "nat option"

record answer_env =
  dateGetTime :: "string \<Rightarrow> number option"
  listActiveSessionQuizzes :: "thrown + SessionQuizItem list option"
  submitSessionQuizAnswer :: "thrown + quiz_answer_result"
  answered_at :: number
  getMySessionQuizStats :: "thrown + StudentQuizStats"
  telemetry :: telemetry_env

definition handleQuizAnswer :: "answer_env \<Rightarrow> SessionQuizItem \<Rightarrow> student_page \<Rightarrow> student_page" where
  "handleQuizAnswer env quiz st =
     (case session st of
        None \<Rightarrow> st
      | Some sess \<Rightarrow>
          (let remainingSeconds = quizRemainingSeconds (dateGetTime env) quiz (quizClock st) in
           if (case remainingSeconds of None \<Rightarrow> False | Some r \<Rightarrow> r \<le> 0)
           then loadActiveQuizzes (listActiveSessionQuizzes env)
                  (st\<lparr>quizFeedback :=
                        Some (ERROR, ''Quiz time is over. Wait for the next checkpoint.'')\<rparr>)
           else
             (case selectedQuizOptions st (quiz_id quiz) of
                None \<Rightarrow>
                  st\<lparr>quizFeedback := Some (ERROR, ''Please choose an option before submitting.'')\<rparr>
              | Some selectedOptionIndex \<Rightarrow>
                  (let st1 = st\<lparr>answeringQuizId := Some (quiz_id quiz),
                                 requests := requests st
                                   @ [SubmitSessionQuizAnswer (session_id sess) (quiz_id quiz)
                                        selectedOptionIndex]\<rparr>;
                       st2 =
                         (case submitSessionQuizAnswer env of
                            Inl err \<Rightarrow>
                              st1\<lparr>quizFeedback :=
                                    Some (ERROR,
                                          (case err of
                                             Some m \<Rightarrow> m
                                           | None \<Rightarrow> ''Failed to submit answer''))\<rparr>
                          | Inr result \<Rightarrow>
                              sendTelemetrySignal (telemetry env)
                                (loadQuizStats (getMySessionQuizStats env)
                                  (loadActiveQuizzes (listActiveSessionQuizzes env)
                                    (st1\<lparr>answeredQuizAtRef := Some (answered_at env),
                                         quizFeedback :=
                                           Some (if is_correct result
                                                 then (SUCCESS,
                                                       ''Answer submitted. Correct (''
                                                         @ optionLabel selectedOptionIndex @ '').'')
                                                 else (INFO,
                                                       ''Answer submitted. Correct option is ''
                                                         @ optionLabel
                                                             (case correct_option_index result of
                                                                Some i \<Rightarrow> i
                                                              | None \<Rightarrow> 0)
                                                         @ ''.'')),
                                         selectedQuizOptions :=
                                           (selectedQuizOptions st1)(quiz_id quiz := None)\<rparr>))))
                   in st2\<lparr>answeringQuizId := None\<rparr>))))"

subsection \<open>The instructor session page: the insights socket\<close>

datatype topic_difficulty = LOW | MEDIUM | HIGH

record subscribe_insights =
  topic_difficulty :: topic_difficulty
  local_hour :: nat

text \<open>
  The part of \<^verbatim>\<open>TeacherSessionDetailPage\<close> that drives the insights socket.  React compares
  the \<^verbatim>\<open>session\<close> dependency by object identity and every \<^verbatim>\<open>setSession\<close> stores a new object:
  \<open>t_session_rev\<close> counts them.  \<open>committed\<close> holds the dependency values
  (\<^verbatim>\<open>topicDifficulty\<close> and the identity of \<^verbatim>\<open>session\<close>) of the last committed render, \<open>None\<close>
  before the first one.  The last three fields are the effects on the outside world.
\<close>

record teacher_page =
  t_session :: "SessionData option"
  t_session_rev :: nat
  engagementSocketState :: socket_state
  insightsError :: string
  topicDifficulty :: topic_difficulty
  t_engagementWsRef :: "WebSocket option"
  committed :: "(topic_difficulty \<times> nat) option"
  t_sockets_opened :: "string list"
  t_sockets_closed :: "nat list"
  t_sent :: "(nat \<times> subscribe_insights) list"

record insights_env =
  t_connect :: connect_env
  getHours :: nat

definition disconnectEngagementSocket_teacher :: "teacher_page \<Rightarrow> teacher_page" where
  "disconnectEngagementSocket_teacher st =
     (case t_engagementWsRef st of
        None \<Rightarrow> st
      | Some ws \<Rightarrow>
          st\<lparr>t_sockets_closed := t_sockets_closed st @ [ws_id ws],
             t_engagementWsRef := None\<rparr>)"

definition connectEngagementSocket_teacher :: "connect_env \<Rightarrow> teacher_page \<Rightarrow> teacher_page" where
  "connectEngagementSocket_teacher env st =
     (case t_session st of
        None \<Rightarrow> st
      | Some sess \<Rightarrow>
          if status sess \<noteq> ''LIVE'' then st
          else if (case t_engagementWsRef st of
                     None \<Rightarrow> False
                   | Some existing \<Rightarrow>
                       readyState existing = WS_OPEN \<or> readyState existing = WS_CONNECTING)
          then st
          else
            (let wsUrl = getEngagementWebSocketUrl env (session_id sess) in
             if \<not> str_includes wsUrl ''token=''
             then st\<lparr>engagementSocketState := SOCKET_ERROR,
                     insightsError := ''Missing auth token for live engagement socket''\<rparr>
             else
               (let st1 = st\<lparr>engagementSocketState := CONNECTING,
                              t_sockets_opened := t_sockets_opened st @ [wsUrl]\<rparr> in
                case newWebSocket env of
                  Inr i \<Rightarrow>
                    st1\<lparr>t_engagementWsRef :=
                          Some \<lparr>ws_id = i, ws_url = wsUrl, readyState = WS_CONNECTING\<rparr>\<rparr>
                | Inl err \<Rightarrow>
                    st1\<lparr>engagementSocketState := SOCKET_ERROR,
                        insightsError := ''Unable to open live engagement socket''\<rparr>)))"

text \<open>
  The body of the effect with dependencies \<^verbatim>\<open>[session, connectEngagementSocket,
  disconnectEngagementSocket]\<close>; both callbacks change identity only with \<^verbatim>\<open>session\<close>.
\<close>

definition connectionEffect :: "connect_env \<Rightarrow> teacher_page \<Rightarrow> teacher_page" where
  "connectionEffect env st =
     (if (case t_session st of None \<Rightarrow> True | Some sess \<Rightarrow> status sess \<noteq> ''LIVE'')
      then (disconnectEngagementSocket_teacher st)\<lparr>engagementSocketState := DISCONNECTED\<rparr>
      else connectEngagementSocket_teacher env st)"

text \<open>The body of the effect with dependencies \<^verbatim>\<open>[topicDifficulty, session]\<close>.\<close>

definition resubscribeEffect :: "nat \<Rightarrow> teacher_page \<Rightarrow> teacher_page" where
  "resubscribeEffect hour st =
     (case t_engagementWsRef st of
        None \<Rightarrow> st
      | Some socket \<Rightarrow>
          if readyState socket \<noteq> WS_OPEN
             \<or> (case t_session st of None \<Rightarrow> True | Some sess \<Rightarrow> status sess \<noteq> ''LIVE'')
          then st
          else st\<lparr>t_sent := t_sent st
                      @ [(ws_id socket,
                          \<lparr>topic_difficulty = topicDifficulty st, local_hour = hour\<rparr>)]\<rparr>)"

definition setTopicDifficulty :: "topic_difficulty \<Rightarrow> teacher_page \<Rightarrow> teacher_page" where
  "setTopicDifficulty d st = st\<lparr>topicDifficulty := d\<rparr>"

definition setSession :: "SessionData \<Rightarrow> teacher_page \<Rightarrow> teacher_page" where
  "setSession data st = st\<lparr>t_session := Some data, t_session_rev := Suc (t_session_rev st)\<rparr>"

text \<open>
  One committed render, after React's rule for \<^verbatim>\<open>useEffect\<close>: an effect runs after the first
  render and after every render in which one of its dependencies has changed; the cleanup
  of a changed effect (here \<^verbatim>\<open>disconnectEngagementSocket\<close>) runs before the effects, and the
  effects run in the order of their declaration.
\<close>

definition render_commit :: "insights_env \<Rightarrow> teacher_page \<Rightarrow> teacher_page" where
  "render_commit env st =
     (let deps = (topicDifficulty st, t_session_rev st);
          st1 =
            (case committed st of
               None \<Rightarrow> connectionEffect (t_connect env) st
             | Some (topic, seen) \<Rightarrow>
                 if seen = t_session_rev st then st
                 else connectionEffect (t_connect env) (disconnectEngagementSocket_teacher st));
          st2 = (if committed st = Some deps then st1 else resubscribeEffect (getHours env) st1)
      in st2\<lparr>committed := Some deps\<rparr>)"

subsection \<open>Concrete pages and environments\<close>

text \<open>The page as first rendered at wall-clock time \<open>now\<close>.\<close>

definition initialPage :: "number \<Rightarrow> student_page" where
  "initialPage now =
     \<lparr> session = None, joined = False, showMeeting = False,
       telemetryState = TELEMETRY_IDLE, telemetryMessage = [],
       cameraState = CAMERA_IDLE, cameraMessage = [],
       socketState = DISCONNECTED,
       activeQuizzes = [], quizStats = \<lparr>attempted = 0, correct = 0, accuracy = 0\<rparr>,
       answeringQuizId = None, selectedQuizOptions = Map.empty, quizFeedback = None,
       quizClock = now,
       joinStartedAtRef = None, lastInteractionRef = now, interactionCountRef = 0,
       hiddenAccumulatedRef = 0, hiddenStartedAtRef = None, focusedRef = True,
       answeredQuizAtRef = None, videoRef = None, cameraStreamRef = None,
       cameraRecoveryTimerRef = None, engagementWsRef = None,
       timers = [], timer_seq = 0, device_log = [], sockets_opened = [], sent = [],
       requests = [] \<rparr>"

definition liveSession :: SessionData where
  "liveSession = \<lparr>session_id = 3, status = ''LIVE'', tracking_enabled = True\<rparr>"

definition sampleUrl :: "nat \<Rightarrow> string" where
  "sampleUrl sid = ''wss://host/ws/engagement?token=abc''"

definition bareUrl :: "nat \<Rightarrow> string" where
  "bareUrl sid = ''wss://host/ws/engagement''"

text \<open>
  A student who joined the live session at time 1000, with the camera and the socket up,
  four interactions since the last sample and three seconds spent hidden.
\<close>

definition joinedPage :: student_page where
  "joinedPage =
     (initialPage 1000)
       \<lparr> session := Some liveSession, joined := True,
         cameraState := CAMERA_ACTIVE,
         cameraStreamRef := Some \<lparr>stream_id = 1, video_tracks = [True]\<rparr>,
         videoRef := Some \<lparr>srcObject = Some 1\<rparr>,
         socketState := CONNECTED,
         engagementWsRef := Some \<lparr>ws_id = 5, ws_url = sampleUrl 3, readyState = WS_OPEN\<rparr>,
         joinStartedAtRef := Some 1000,
         hiddenAccumulatedRef := 3000,
         lastInteractionRef := 12500,
         interactionCountRef := 4 \<rparr>"

definition sampleCamera :: camera_env where
  "sampleCamera = \<lparr>mediaDevices = True,
                    getUserMedia = Inr \<lparr>stream_id = 2, video_tracks = [True]\<rparr>\<rparr>"

definition sampleCapture :: capture_env where
  "sampleCapture = \<lparr>canvas_present = True, video_readyState = 4, context2d = True,
                     toBlob = Some ''jpeg''\<rparr>"

definition sampleConnect :: connect_env where
  "sampleConnect = \<lparr>getEngagementWebSocketUrl = sampleUrl, newWebSocket = Inr 6\<rparr>"

definition bareConnect :: connect_env where
  "bareConnect = \<lparr>getEngagementWebSocketUrl = bareUrl, newWebSocket = Inr 6\<rparr>"

definition sampleCycle :: telemetry_env where
  "sampleCycle =
     \<lparr> now_first = 13000, now_ms = 13000,
       document = Some \<lparr>visibilityState_visible = True, hasFocus = True\<rparr>,
       camera_reconnect = sampleCamera, connect = sampleConnect,
       capture_first = sampleCapture, camera_retry = sampleCamera,
       capture_second = sampleCapture,
       readAsDataURL = (\<lambda>file. Some (''data:image/jpeg;base64,'' @ file)),
       socket_send = None, timeString = ''10:00:13'' \<rparr>"

definition sampleAnswer :: answer_env where
  "sampleAnswer =
     \<lparr> dateGetTime = sampleGetTime,
       listActiveSessionQuizzes = Inr (Some []),
       submitSessionQuizAnswer = Inr \<lparr>is_correct = True, correct_option_index = Some 1\<rparr>,
       answered_at = 1767225661000,
       getMySessionQuizStats = Inr \<lparr>attempted = 1, correct = 1, accuracy = 1\<rparr>,
       telemetry = sampleCycle \<rparr>"

text \<open>An instructor page whose socket is open on a live session, as last rendered.\<close>

definition teachingPage :: teacher_page where
  "teachingPage =
     \<lparr> t_session = Some liveSession, t_session_rev = 1,
       engagementSocketState = CONNECTED, insightsError = [],
       topicDifficulty = MEDIUM,
       t_engagementWsRef = Some \<lparr>ws_id = 9, ws_url = sampleUrl 3, readyState = WS_OPEN\<rparr>,
       committed = Some (MEDIUM, 1),
       t_sockets_opened = [sampleUrl 3], t_sockets_closed = [], t_sent = [] \<rparr>"

definition sampleInsights :: insights_env where
  "sampleInsights = \<lparr>t_connect = sampleConnect, getHours = 10\<rparr>"

section \<open>Auxiliary facts\<close>

text \<open>\<^verbatim>\<open>startCamera\<close> in one piece.\<close>

lemma startCamera_unfold:
  "startCamera env st =
     (if (case cameraStreamRef st of
            None \<Rightarrow> False
          | Some existingStream \<Rightarrow> list_ex (\<lambda>live. live) (video_tracks existingStream))
      then st\<lparr>cameraState := CAMERA_ACTIVE\<rparr>
      else
        (let st1 = (if cameraStreamRef st \<noteq> None then stopCamera st else st) in
         if \<not> mediaDevices env
         then st1\<lparr>cameraState := CAMERA_ERROR,
                  cameraMessage := ''Camera API unavailable. Real-only signal mode is blocked.''\<rparr>
         else startCamera_settle (getUserMedia env)
                (st1\<lparr>device_log := device_log st1 @ [GetUserMedia]\<rparr>)))"
  by (simp add: startCamera_def startCamera_request_def Let_def)

lemma clamp_range: "0 \<le> clamp v" "clamp v \<le> 1"
  by (simp_all add: clamp_def)

lemma toFixed_unit:
  assumes "0 \<le> x" "x \<le> 1"
  shows "0 \<le> toFixed 3 x" "toFixed 3 x \<le> 1"
proof -
  have "(0::int) \<le> \<lfloor>x * 1000 + 1 / 2\<rfloor>"
    using assms by (simp add: zero_le_floor)
  moreover have "\<lfloor>x * 1000 + 1 / 2\<rfloor> \<le> (1000::int)"
    using assms by (simp add: floor_le_iff)
  ultimately show "0 \<le> toFixed 3 x" "toFixed 3 x \<le> 1"
    using assms by (simp_all add: toFixed_def)
qed

lemma toFixed_keeps_floor:
  assumes "0.55 \<le> x"
  shows "0.55 \<le> toFixed 3 x"
proof -
  have "(550::int) \<le> \<lfloor>x * 1000 + 1 / 2\<rfloor>"
    using assms by (simp add: le_floor_iff)
  then have "(550::real) \<le> real_of_int \<lfloor>x * 1000 + 1 / 2\<rfloor>"
    by linarith
  then show ?thesis
    using assms by (simp add: toFixed_def)
qed

lemma visionSample_range:
  "0 \<le> participation (visionSample env st img n)"
  "participation (visionSample env st img n) \<le> 1"
  "0 \<le> attendance_consistency (visionSample env st img n)"
  "attendance_consistency (visionSample env st img n) \<le> 1"
  "0 \<le> movement_intensity (visionSample env st img n)"
  "movement_intensity (visionSample env st img n) \<le> 1"
  by (simp_all add: visionSample_def Let_def toFixed_unit clamp_range)

lemma visionSample_attendance:
  "0.55 \<le> attendance_consistency (visionSample env st img n)"
proof -
  have "0.55 \<le> clamp (0.55 + clamp v * 0.45)" for v
    using clamp_range [of v] by (simp add: clamp_def)
  then show ?thesis
    by (simp only: visionSample_def Let_def vision_sample.select_convs) (rule toFixed_keeps_floor)
qed

text \<open>What the camera and the socket leave alone.\<close>

lemma stopCamera_frame [simp]:
  "session (stopCamera st) = session st"
  "joined (stopCamera st) = joined st"
  "sent (stopCamera st) = sent st"
  "interactionCountRef (stopCamera st) = interactionCountRef st"
  "engagementWsRef (stopCamera st) = engagementWsRef st"
  "(videoRef (stopCamera st) = None) = (videoRef st = None)"
  by (simp_all add: stopCamera_def Let_def split: option.splits)

lemma startCamera_frame [simp]:
  "session (startCamera env st) = session st"
  "joined (startCamera env st) = joined st"
  "sent (startCamera env st) = sent st"
  "interactionCountRef (startCamera env st) = interactionCountRef st"
  "engagementWsRef (startCamera env st) = engagementWsRef st"
  "(videoRef (startCamera env st) = None) = (videoRef st = None)"
  by (simp_all add: startCamera_unfold startCamera_settle_def Let_def split: option.splits sum.splits)

lemma connectEngagementSocket_frame [simp]:
  "sent (connectEngagementSocket env st) = sent st"
  "interactionCountRef (connectEngagementSocket env st) = interactionCountRef st"
  "device_log (connectEngagementSocket env st) = device_log st"
  "timers (connectEngagementSocket env st) = timers st"
  "cameraRecoveryTimerRef (connectEngagementSocket env st) = cameraRecoveryTimerRef st"
  "cameraStreamRef (connectEngagementSocket env st) = cameraStreamRef st"
  by (simp_all add: connectEngagementSocket_def Let_def split: option.splits sum.splits)

lemma captureVisionFrame_cong:
  "(videoRef st' = None) = (videoRef st = None) \<Longrightarrow>
     captureVisionFrame env st' = captureVisionFrame env st"
  by (simp add: captureVisionFrame_def)

text \<open>
  The two ways out of a compose cycle: nothing is sent and the counter stays, or the socket
  is open, a frame was captured and encoded, \<^verbatim>\<open>send\<close> returned, one message is sent and the
  counter is zero.
\<close>

lemma sendTelemetrySignal_outcome:
  fixes env st
  defines "st' \<equiv> sendTelemetrySignal env st"
    and "stamped \<equiv> (if joinStartedAtRef st = None
                      then st\<lparr>joinStartedAtRef := Some (now_first env)\<rparr> else st)"
    and "captured \<equiv> (case captureVisionFrame (capture_first env) st of
                       Some file \<Rightarrow> Some file
                     | None \<Rightarrow> captureVisionFrame (capture_second env) st)"
    and "reacquired \<equiv>
           (if cameraState (if joinStartedAtRef st = None
                            then st\<lparr>joinStartedAtRef := Some (now_first env)\<rparr> else st)
                 \<noteq> CAMERA_ACTIVE
               \<or> cameraStreamRef (if joinStartedAtRef st = None
                                   then st\<lparr>joinStartedAtRef := Some (now_first env)\<rparr> else st)
                 = None
            then startCamera (camera_reconnect env)
                   ((if joinStartedAtRef st = None
                     then st\<lparr>joinStartedAtRef := Some (now_first env)\<rparr> else st)
                      \<lparr>telemetryState := TELEMETRY_ERROR,
                       telemetryMessage := ''Camera is reconnecting...''\<rparr>)
            else (if joinStartedAtRef st = None
                  then st\<lparr>joinStartedAtRef := Some (now_first env)\<rparr> else st))"
  shows "(sent st' = sent st \<and> interactionCountRef st' = interactionCountRef st)
       \<or> (\<exists>sess socket file img.
             session st = Some sess \<and> joined st \<and> status sess = ''LIVE''
           \<and> engagementWsRef st = Some socket \<and> readyState socket = WS_OPEN
           \<and> captured = Some file \<and> readAsDataURL env file = Some img \<and> img \<noteq> []
           \<and> socket_send env = None
           \<and> sent st' = sent st
                @ [(ws_id socket, visionSample env stamped img (interactionCountRef st))]
           \<and> interactionCountRef st' = 0)"
    and "\<lbrakk>session st = Some sess; joined st; status sess = ''LIVE'';
          engagementWsRef st = Some socket; readyState socket = WS_OPEN;
          captured = Some jpeg; readAsDataURL env jpeg = Some img; img \<noteq> [];
          socket_send env = None\<rbrakk>
         \<Longrightarrow> sent st' = sent st
                @ [(ws_id socket, visionSample env stamped img (interactionCountRef st))]
             \<and> interactionCountRef st' = 0"
    and "\<lbrakk>session st = Some sess; joined st; status sess = ''LIVE''\<rbrakk>
         \<Longrightarrow> \<exists>s. (s = reacquired \<or> s = startCamera (camera_retry env) reacquired)
                \<and> device_log st' = device_log s \<and> timers st' = timers s
                \<and> cameraRecoveryTimerRef st' = cameraRecoveryTimerRef s
                \<and> cameraStreamRef st' = cameraStreamRef s"
proof -
  have st1_def: "reacquired = (if cameraState stamped \<noteq> CAMERA_ACTIVE \<or> cameraStreamRef stamped = None
                      then startCamera (camera_reconnect env)
                             (stamped\<lparr>telemetryState := TELEMETRY_ERROR,
                                      telemetryMessage := ''Camera is reconnecting...''\<rparr>)
                      else stamped)"
    unfolding reacquired_def stamped_def by (rule refl)
  define off where "off = connectEngagementSocket (connect env)
                    (reacquired\<lparr>telemetryState := TELEMETRY_ERROR,
                         telemetryMessage := ''Engagement socket is disconnected''\<rparr>)"
  define first where "first = captureVisionFrame (capture_first env) reacquired"
  define st2 where "st2 = (if first = None then startCamera (camera_retry env) reacquired else reacquired)"
  define frame where "frame = (if first = None
                                  then captureVisionFrame (capture_second env) st2 else first)"
  have keep0: "sent stamped = sent st" "interactionCountRef stamped = interactionCountRef st"
    "engagementWsRef stamped = engagementWsRef st" "(videoRef stamped = None) = (videoRef st = None)"
    by (simp_all add: stamped_def)
  have keep1: "sent reacquired = sent st" "interactionCountRef reacquired = interactionCountRef st"
    "engagementWsRef reacquired = engagementWsRef st" "(videoRef reacquired = None) = (videoRef st = None)"
    by (simp_all add: st1_def keep0)
  have keep2: "sent st2 = sent st" "interactionCountRef st2 = interactionCountRef st"
    "(videoRef st2 = None) = (videoRef st = None)"
    by (simp_all add: st2_def keep1)
  have keep_off: "sent off = sent st" "interactionCountRef off = interactionCountRef st"
    by (simp_all add: off_def keep1)
  have first: "first = captureVisionFrame (capture_first env) st"
    unfolding first_def by (rule captureVisionFrame_cong) (rule keep1)
  have "captureVisionFrame (capture_second env) st2 = captureVisionFrame (capture_second env) st"
    by (rule captureVisionFrame_cong) (rule keep2)
  then have frame: "frame = captured"
    by (simp add: frame_def captured_def first split: option.splits)
  have body: "session st = Some sess \<Longrightarrow> joined st \<Longrightarrow> status sess = ''LIVE'' \<Longrightarrow> st' =
    (case engagementWsRef reacquired of
       None \<Rightarrow> off
     | Some socket \<Rightarrow>
         if readyState socket \<noteq> WS_OPEN then off
         else
           (case frame of
              None \<Rightarrow>
                st2\<lparr>telemetryState := TELEMETRY_ERROR,
                    telemetryMessage :=
                      ''Unable to capture camera frame. Check camera visibility.''\<rparr>
            | Some file \<Rightarrow>
                (case readAsDataURL env file of
                   None \<Rightarrow>
                     st2\<lparr>telemetryState := TELEMETRY_ERROR,
                         telemetryMessage := ''Unable to encode camera frame''\<rparr>
                 | Some imageBase64 \<Rightarrow>
                     if imageBase64 = []
                     then st2\<lparr>telemetryState := TELEMETRY_ERROR,
                              telemetryMessage := ''Unable to encode camera frame''\<rparr>
                     else
                       (case socket_send env of
                          Some err \<Rightarrow>
                            st2\<lparr>telemetryState := TELEMETRY_ERROR,
                                telemetryMessage :=
                                  (case err of
                                     Some m \<Rightarrow> m
                                   | None \<Rightarrow> ''Unable to send engagement sample'')\<rparr>
                        | None \<Rightarrow>
                            st2\<lparr>sent := sent st2
                                   @ [(ws_id socket,
                                       visionSample env stamped imageBase64
                                         (interactionCountRef st2))],
                                telemetryState := TELEMETRY_ACTIVE,
                                telemetryMessage :=
                                  ''Vision sample queued: '' @ timeString env,
                                interactionCountRef := 0\<rparr>))))" for sess
    unfolding st'_def sendTelemetrySignal_def Let_def
      stamped_def [symmetric] st1_def [symmetric] off_def [symmetric] first_def [symmetric]
      st2_def [symmetric] frame_def [symmetric]
    by (simp only: option.case simp_thms if_False)
  show "(sent st' = sent st \<and> interactionCountRef st' = interactionCountRef st)
       \<or> (\<exists>sess socket file img.
             session st = Some sess \<and> joined st \<and> status sess = ''LIVE''
           \<and> engagementWsRef st = Some socket \<and> readyState socket = WS_OPEN
           \<and> captured = Some file \<and> readAsDataURL env file = Some img \<and> img \<noteq> []
           \<and> socket_send env = None
           \<and> sent st' = sent st
                @ [(ws_id socket, visionSample env stamped img (interactionCountRef st))]
           \<and> interactionCountRef st' = 0)"
  proof (cases "session st")
    case None
    then show ?thesis
      by (simp add: st'_def sendTelemetrySignal_def)
  next
    case (Some sess)
    show ?thesis
    proof (cases "joined st \<and> status sess = ''LIVE''")
      case False
      with Some show ?thesis
        by (auto simp: st'_def sendTelemetrySignal_def)
    next
      case True
      then have live: "joined st" "status sess = ''LIVE''"
        by simp_all
      show ?thesis
        unfolding body [OF Some live]
        using Some live
        by (simp add: keep1 keep2 keep_off frame split: option.split)
    qed
  qed
  show "sent st' = sent st
          @ [(ws_id socket, visionSample env stamped img (interactionCountRef st))]
        \<and> interactionCountRef st' = 0"
    if "session st = Some sess" "joined st" "status sess = ''LIVE''"
      "engagementWsRef st = Some socket" "readyState socket = WS_OPEN"
      "captured = Some jpeg" "readAsDataURL env jpeg = Some img" "img \<noteq> []"
      "socket_send env = None"
    unfolding body [OF that(1-3)]
    using that by (simp add: keep1 keep2 frame)
  show "\<exists>s. (s = reacquired \<or> s = startCamera (camera_retry env) reacquired)
          \<and> device_log st' = device_log s \<and> timers st' = timers s
          \<and> cameraRecoveryTimerRef st' = cameraRecoveryTimerRef s
          \<and> cameraStreamRef st' = cameraStreamRef s"
    if "session st = Some sess" "joined st" "status sess = ''LIVE''"
  proof -
    let ?camera = "\<lambda>x. (device_log x, timers x, cameraRecoveryTimerRef x, cameraStreamRef x)"
    have "?camera st' = ?camera off \<or> ?camera st' = ?camera st2"
      unfolding body [OF that] by (simp split: option.split)
    moreover have "?camera off = ?camera reacquired"
      by (simp add: off_def)
    moreover have "st2 = reacquired \<or> st2 = startCamera (camera_retry env) reacquired"
      by (simp add: st2_def)
    ultimately obtain s where "s = reacquired \<or> s = startCamera (camera_retry env) reacquired"
      and "?camera st' = ?camera s"
      by metis
    then show ?thesis
      by (intro exI [of _ s]) simp
  qed
qed

subsection \<open>The sample student at work\<close>

lemma joinedPage_fields:
  "session joinedPage = Some liveSession"
  "joined joinedPage"
  "showMeeting joinedPage = False"
  "engagementWsRef joinedPage = Some \<lparr>ws_id = 5, ws_url = sampleUrl 3, readyState = WS_OPEN\<rparr>"
  "videoRef joinedPage = Some \<lparr>srcObject = Some 1\<rparr>"
  "joinStartedAtRef joinedPage = Some 1000"
  "hiddenAccumulatedRef joinedPage = 3000"
  "hiddenStartedAtRef joinedPage = None"
  "lastInteractionRef joinedPage = 12500"
  "interactionCountRef joinedPage = 4"
  "focusedRef joinedPage"
  "answeredQuizAtRef joinedPage = None"
  "sent joinedPage = []"
  "requests joinedPage = []"
  "quizClock joinedPage = 1000"
  by (simp_all add: joinedPage_def initialPage_def)

lemma sampleCycle_fields:
  "now_ms sampleCycle = 13000"
  "document sampleCycle = Some \<lparr>visibilityState_visible = True, hasFocus = True\<rparr>"
  "capture_first sampleCycle = sampleCapture"
  "readAsDataURL sampleCycle jpeg = Some (''data:image/jpeg;base64,'' @ jpeg)"
  "socket_send sampleCycle = None"
  by (simp_all add: sampleCycle_def)

lemma joinedPage_cycle:
  "sent (sendTelemetrySignal sampleCycle joinedPage)
     = [(5, visionSample sampleCycle joinedPage ''data:image/jpeg;base64,jpeg'' 4)]"
  "interactionCountRef (sendTelemetrySignal sampleCycle joinedPage) = 0"
proof -
  have "sent (sendTelemetrySignal sampleCycle joinedPage)
          = sent joinedPage
              @ [(ws_id \<lparr>ws_id = 5, ws_url = sampleUrl 3, readyState = WS_OPEN\<rparr>,
                  visionSample sampleCycle
                    (if joinStartedAtRef joinedPage = None
                     then joinedPage\<lparr>joinStartedAtRef := Some (now_first sampleCycle)\<rparr>
                     else joinedPage)
                    ''data:image/jpeg;base64,jpeg'' (interactionCountRef joinedPage))]
        \<and> interactionCountRef (sendTelemetrySignal sampleCycle joinedPage) = 0"
    by (rule sendTelemetrySignal_outcome(2) [where sess = liveSession and jpeg = "''jpeg''"])
      (simp_all add: joinedPage_fields sampleCycle_fields liveSession_def
        sampleCapture_def captureVisionFrame_def)
  then show "sent (sendTelemetrySignal sampleCycle joinedPage)
     = [(5, visionSample sampleCycle joinedPage ''data:image/jpeg;base64,jpeg'' 4)]"
    "interactionCountRef (sendTelemetrySignal sampleCycle joinedPage) = 0"
    by (simp_all add: joinedPage_fields)
qed

lemma sample_estimates:
  "clamp (real 4 / 10) = 0.4"
  "clamp (1 - (3000 + 0) / max (13000 - 1000) 1) = 0.75"
  "toFixed 1 ((13000 - 12500) / 1000) = 0.5"
  by (simp_all add: clamp_def toFixed_def)

lemma joinedPage_sample:
  "visionSample sampleCycle joinedPage ''data:image/jpeg;base64,jpeg'' 4
     = \<lparr> image_base64 = ''data:image/jpeg;base64,jpeg'',
         participation = 0.43,
         attendance_consistency = 0.888,
         interaction_recency_seconds = 0.5,
         interaction_events = 4,
         movement_intensity = 0.55 \<rparr>"
  unfolding visionSample_def Let_def joinedPage_fields sampleCycle_fields
    option.case document_env.select_convs simp_thms if_True if_False sample_estimates
  by (simp add: joinedPage_fields clamp_def toFixed_def)

section \<open>Properties\<close>

subsection \<open>The signal composer\<close>

text \<open>
  C1.  Whatever the activity monitor holds (interaction count, focus, visibility, hidden
  time, quiz-answer recency, meeting flag) and whatever the cycle meets, every message that
  \<^verbatim>\<open>sendTelemetrySignal\<close> passes to \<^verbatim>\<open>socket.send\<close> carries a participation, an attendance
  consistency and a movement intensity in the closed interval from 0 to 1.
\<close>

theorem telemetry_values_clamped:
  assumes "sent (sendTelemetrySignal env st) = sent st @ new"
    and "(w, m) \<in> set new"
  shows "0 \<le> participation m \<and> participation m \<le> 1
       \<and> 0 \<le> attendance_consistency m \<and> attendance_consistency m \<le> 1
       \<and> 0 \<le> movement_intensity m \<and> movement_intensity m \<le> 1"
proof -
  from sendTelemetrySignal_outcome(1) [of env st] assms
  obtain st0 img n where "m = visionSample env st0 img n"
    by auto
  then show ?thesis
    by (simp add: visionSample_range)
qed

theorem telemetry_values_clamped_witness:
  "sent (sendTelemetrySignal sampleCycle joinedPage)
     = [(5, \<lparr> image_base64 = ''data:image/jpeg;base64,jpeg'',
                  participation = 0.43, attendance_consistency = 0.888,
                  interaction_recency_seconds = 0.5, interaction_events = 4,
                  movement_intensity = 0.55 \<rparr>)]
   \<and> (0::real) \<le> 0.43 \<and> (0.43::real) \<le> 1
   \<and> (0::real) \<le> 0.888 \<and> (0.888::real) \<le> 1
   \<and> (0::real) \<le> 0.55 \<and> (0.55::real) \<le> 1"
proof -
  let ?m = "\<lparr> image_base64 = ''data:image/jpeg;base64,jpeg'',
              participation = 0.43, attendance_consistency = 0.888,
              interaction_recency_seconds = 0.5, interaction_events = 4,
              movement_intensity = 0.55 \<rparr>"
  have run: "sent (sendTelemetrySignal sampleCycle joinedPage) = sent joinedPage @ [(5, ?m)]"
    by (simp only: joinedPage_cycle joinedPage_sample joinedPage_fields append_Nil)
  have "(5, ?m) \<in> set [(5::nat, ?m)]"
    by simp
  from telemetry_values_clamped [OF run this] run show ?thesis
    by (simp add: joinedPage_fields)
qed

text \<open>
  C10.  Every message that \<^verbatim>\<open>sendTelemetrySignal\<close> transmits reports an attendance
  consistency of at least 0.55: the blend is 0.55 plus 0.45 times the visible ratio, and the
  visible ratio is clamped at zero, so a participant hidden for the whole time since joining
  is still reported at 0.55.
\<close>

theorem attendance_consistency_floor:
  assumes "sent (sendTelemetrySignal env st) = sent st @ new"
    and "(w, m) \<in> set new"
  shows "0.55 \<le> attendance_consistency m"
proof -
  from sendTelemetrySignal_outcome(1) [of env st] assms
  obtain st0 img n where "m = visionSample env st0 img n"
    by auto
  then show ?thesis
    by (simp only: visionSample_attendance)
qed

text \<open>The sample student, hidden ever since joining: twelve of twelve seconds.\<close>

lemma hidden_sample:
  "visionSample sampleCycle (joinedPage\<lparr>hiddenAccumulatedRef := 12000\<rparr>)
       ''data:image/jpeg;base64,jpeg'' 4
     = \<lparr> image_base64 = ''data:image/jpeg;base64,jpeg'',
         participation = 0.43,
         attendance_consistency = 0.55,
         interaction_recency_seconds = 0.5,
         interaction_events = 4,
         movement_intensity = 0.55 \<rparr>"
proof -
  have hidden: "clamp (1 - (12000 + 0) / max (13000 - 1000) 1) = 0"
    by (simp add: clamp_def)
  show ?thesis
    unfolding visionSample_def Let_def student_page.simps joinedPage_fields sampleCycle_fields
      option.case document_env.select_convs simp_thms if_True if_False sample_estimates hidden
    by (simp add: joinedPage_fields clamp_def toFixed_def)
qed

lemma hidden_cycle:
  "sent (sendTelemetrySignal sampleCycle (joinedPage\<lparr>hiddenAccumulatedRef := 12000\<rparr>))
     = [(5, visionSample sampleCycle (joinedPage\<lparr>hiddenAccumulatedRef := 12000\<rparr>)
              ''data:image/jpeg;base64,jpeg'' 4)]"
proof -
  let ?st = "joinedPage\<lparr>hiddenAccumulatedRef := 12000\<rparr>"
  have "sent (sendTelemetrySignal sampleCycle ?st)
          = sent ?st
              @ [(ws_id \<lparr>ws_id = 5, ws_url = sampleUrl 3, readyState = WS_OPEN\<rparr>,
                  visionSample sampleCycle
                    (if joinStartedAtRef ?st = None
                     then ?st\<lparr>joinStartedAtRef := Some (now_first sampleCycle)\<rparr>
                     else ?st)
                    ''data:image/jpeg;base64,jpeg'' (interactionCountRef ?st))]
        \<and> interactionCountRef (sendTelemetrySignal sampleCycle ?st) = 0"
    by (rule sendTelemetrySignal_outcome(2) [where sess = liveSession and jpeg = "''jpeg''"])
      (simp_all add: joinedPage_fields sampleCycle_fields liveSession_def
        sampleCapture_def captureVisionFrame_def)
  then show ?thesis
    by (simp add: joinedPage_fields)
qed

theorem attendance_consistency_floor_witness:
  "sent (sendTelemetrySignal sampleCycle (joinedPage\<lparr>hiddenAccumulatedRef := 12000\<rparr>))
     = [(5, \<lparr> image_base64 = ''data:image/jpeg;base64,jpeg'',
              participation = 0.43, attendance_consistency = 0.55,
              interaction_recency_seconds = 0.5, interaction_events = 4,
              movement_intensity = 0.55 \<rparr>)]
   \<and> (0.55::real) \<le> 0.55"
proof -
  let ?st = "joinedPage\<lparr>hiddenAccumulatedRef := 12000\<rparr>"
  let ?m = "\<lparr> image_base64 = ''data:image/jpeg;base64,jpeg'',
              participation = 0.43, attendance_consistency = 0.55,
              interaction_recency_seconds = 0.5, interaction_events = 4,
              movement_intensity = 0.55 \<rparr>"
  have run: "sent (sendTelemetrySignal sampleCycle ?st) = [(5, ?m)]"
    by (simp only: hidden_cycle hidden_sample)
  have "sent ?st = []"
    by (simp add: joinedPage_fields)
  then have grown: "sent (sendTelemetrySignal sampleCycle ?st) = sent ?st @ [(5, ?m)]"
    using run by simp
  have "(5, ?m) \<in> set [(5::nat, ?m)]"
    by simp
  from attendance_consistency_floor [OF grown this] run show ?thesis
    by simp
qed

text \<open>
  C8.  A compose cycle resets the interaction-burst counter exactly when it transmits: the
  counter is zero after a cycle that sent its message and keeps its value after any cycle
  that did not.  A socket that is not open, two failed captures, a failed encoding and a
  \<^verbatim>\<open>send\<close> that throws each end the cycle without a message, and a cycle that meets none of
  them on a joined live session (the first capture or the retry yields a frame) transmits.
\<close>

theorem interaction_counter_reset_iff_sent:
  "interactionCountRef (sendTelemetrySignal env st)
     = (if sent (sendTelemetrySignal env st) = sent st then interactionCountRef st else 0)
   \<and> ((case engagementWsRef st of None \<Rightarrow> True | Some socket \<Rightarrow> readyState socket \<noteq> WS_OPEN)
        \<longrightarrow> sent (sendTelemetrySignal env st) = sent st)
   \<and> (captureVisionFrame (capture_first env) st = None
        \<and> captureVisionFrame (capture_second env) st = None
        \<longrightarrow> sent (sendTelemetrySignal env st) = sent st)
   \<and> ((\<forall>jpeg. readAsDataURL env jpeg = None \<or> readAsDataURL env jpeg = Some [])
        \<longrightarrow> sent (sendTelemetrySignal env st) = sent st)
   \<and> (socket_send env \<noteq> None \<longrightarrow> sent (sendTelemetrySignal env st) = sent st)
   \<and> (\<forall>sess socket jpeg img.
         session st = Some sess \<and> joined st \<and> status sess = ''LIVE''
         \<and> engagementWsRef st = Some socket \<and> readyState socket = WS_OPEN
         \<and> (captureVisionFrame (capture_first env) st = Some jpeg
              \<or> captureVisionFrame (capture_first env) st = None
                \<and> captureVisionFrame (capture_second env) st = Some jpeg)
         \<and> readAsDataURL env jpeg = Some img \<and> img \<noteq> []
         \<and> socket_send env = None
         \<longrightarrow> length (sent (sendTelemetrySignal env st)) = Suc (length (sent st))
             \<and> interactionCountRef (sendTelemetrySignal env st) = 0)"
proof -
  note out = sendTelemetrySignal_outcome(1) [of env st]
  have counter: "interactionCountRef (sendTelemetrySignal env st)
     = (if sent (sendTelemetrySignal env st) = sent st then interactionCountRef st else 0)"
    using out by auto
  have socket: "sent (sendTelemetrySignal env st) = sent st"
    if "case engagementWsRef st of None \<Rightarrow> True | Some socket \<Rightarrow> readyState socket \<noteq> WS_OPEN"
    using out that by auto
  have capture: "sent (sendTelemetrySignal env st) = sent st"
    if "captureVisionFrame (capture_first env) st = None"
      "captureVisionFrame (capture_second env) st = None"
    using out that by auto
  have encode: "sent (sendTelemetrySignal env st) = sent st"
    if "\<forall>jpeg. readAsDataURL env jpeg = None \<or> readAsDataURL env jpeg = Some []"
    using out that by (metis option.inject option.distinct(1))
  have throw: "sent (sendTelemetrySignal env st) = sent st"
    if "socket_send env \<noteq> None"
    using out that by auto
  have success: "length (sent (sendTelemetrySignal env st)) = Suc (length (sent st))
      \<and> interactionCountRef (sendTelemetrySignal env st) = 0"
    if "session st = Some sess" "joined st" "status sess = ''LIVE''"
      "engagementWsRef st = Some socket" "readyState socket = WS_OPEN"
      "captureVisionFrame (capture_first env) st = Some jpeg
       \<or> captureVisionFrame (capture_first env) st = None
         \<and> captureVisionFrame (capture_second env) st = Some jpeg"
      "readAsDataURL env jpeg = Some img" "img \<noteq> []" "socket_send env = None"
    for sess socket jpeg img
    using sendTelemetrySignal_outcome(2) [of st sess socket env jpeg img] that
    by auto
  from counter socket capture encode throw success show ?thesis
    by blast
qed

theorem interaction_counter_reset_iff_sent_witness:
  "interactionCountRef joinedPage = 4
   \<and> sent (sendTelemetrySignal sampleCycle joinedPage) \<noteq> sent joinedPage
   \<and> interactionCountRef (sendTelemetrySignal sampleCycle joinedPage) = 0
   \<and> socket_send (sampleCycle\<lparr>socket_send := Some (Some ''InvalidStateError'')\<rparr>) \<noteq> None
   \<and> sent (sendTelemetrySignal
              (sampleCycle\<lparr>socket_send := Some (Some ''InvalidStateError'')\<rparr>) joinedPage)
       = sent joinedPage
   \<and> interactionCountRef
         (sendTelemetrySignal
            (sampleCycle\<lparr>socket_send := Some (Some ''InvalidStateError'')\<rparr>) joinedPage) = 4"
proof -
  let ?throwing = "sampleCycle\<lparr>socket_send := Some (Some ''InvalidStateError'')\<rparr>"
  note good = interaction_counter_reset_iff_sent [of sampleCycle joinedPage]
  note bad = interaction_counter_reset_iff_sent [of ?throwing joinedPage]
  have capture: "captureVisionFrame (capture_first sampleCycle) joinedPage = Some ''jpeg''"
    by (simp add: sampleCycle_fields joinedPage_fields sampleCapture_def captureVisionFrame_def)
  have live: "status liveSession = ''LIVE''"
    by (simp add: liveSession_def)
  from good have "length (sent (sendTelemetrySignal sampleCycle joinedPage))
        = Suc (length (sent joinedPage))
      \<and> interactionCountRef (sendTelemetrySignal sampleCycle joinedPage) = 0"
    using capture live by (simp add: joinedPage_fields sampleCycle_fields)
  moreover have "socket_send ?throwing \<noteq> None"
    by simp
  moreover from bad this
  have "sent (sendTelemetrySignal ?throwing joinedPage) = sent joinedPage"
    by blast
  moreover from bad this
  have "interactionCountRef (sendTelemetrySignal ?throwing joinedPage) = interactionCountRef joinedPage"
    by simp
  ultimately show ?thesis
    by (auto simp: joinedPage_fields)
qed

subsection \<open>The camera\<close>












subsection \<open>The quiz synchroniser\<close>

text \<open>
  C3.  When the remaining time of a checkpoint is known and not positive at the moment of
  submission, \<^verbatim>\<open>handleQuizAnswer\<close> answers with the time-over feedback, fetches the active
  checkpoints again and replaces the tracked set by the answer, and issues no other request:
  in particular no answer is submitted.  The handler is reachable only on a page that holds a
  session (the quiz panel is not rendered otherwise), which is the first premise.
\<close>

theorem expired_answer_rejected_locally:
  assumes "session st = Some sess"
    and "quizRemainingSeconds (dateGetTime env) quiz (quizClock st) = Some r"
    and "r \<le> 0"
  shows "quizFeedback (handleQuizAnswer env quiz st)
           = Some (ERROR, ''Quiz time is over. Wait for the next checkpoint.'')
       \<and> requests (handleQuizAnswer env quiz st)
           = requests st @ [ListActiveSessionQuizzes (session_id sess)]
       \<and> activeQuizzes (handleQuizAnswer env quiz st)
           = (case listActiveSessionQuizzes env of
                Inr (Some quizzes) \<Rightarrow> quizzes
              | Inr None \<Rightarrow> []
              | Inl err \<Rightarrow> [])
       \<and> sent (handleQuizAnswer env quiz st) = sent st
       \<and> answeredQuizAtRef (handleQuizAnswer env quiz st) = answeredQuizAtRef st
       \<and> selectedQuizOptions (handleQuizAnswer env quiz st) = selectedQuizOptions st"
  using assms by (simp add: handleQuizAnswer_def loadActiveQuizzes_def)

lemma sampleQuiz_expired:
  "quizRemainingSeconds sampleGetTime sampleQuiz 1767225661500 = Some 0"
proof -
  have "\<lfloor>(1767225660000 - 1767225661500 :: real) / 1000\<rfloor> = - 2"
    by simp
  then show ?thesis
    by (simp add: quizRemainingSeconds_def sampleQuiz_def sampleGetTime_def)
qed

theorem expired_answer_rejected_locally_witness:
  "session (joinedPage\<lparr>quizClock := 1767225661500, activeQuizzes := [sampleQuiz],
                       selectedQuizOptions := [7 \<mapsto> 1]\<rparr>) = Some liveSession
   \<and> quizRemainingSeconds (dateGetTime sampleAnswer) sampleQuiz 1767225661500 = Some 0
   \<and> (0::real) \<le> 0
   \<and> quizFeedback
        (handleQuizAnswer sampleAnswer sampleQuiz
           (joinedPage\<lparr>quizClock := 1767225661500, activeQuizzes := [sampleQuiz],
                        selectedQuizOptions := [7 \<mapsto> 1]\<rparr>))
       = Some (ERROR, ''Quiz time is over. Wait for the next checkpoint.'')
   \<and> requests
        (handleQuizAnswer sampleAnswer sampleQuiz
           (joinedPage\<lparr>quizClock := 1767225661500, activeQuizzes := [sampleQuiz],
                        selectedQuizOptions := [7 \<mapsto> 1]\<rparr>))
       = [ListActiveSessionQuizzes 3]"
proof -
  let ?st = "joinedPage\<lparr>quizClock := 1767225661500, activeQuizzes := [sampleQuiz],
                         selectedQuizOptions := [7 \<mapsto> 1]\<rparr>"
  have s: "session ?st = Some liveSession"
    by (simp add: joinedPage_fields)
  have r: "quizRemainingSeconds (dateGetTime sampleAnswer) sampleQuiz (quizClock ?st) = Some 0"
    by (simp add: sampleAnswer_def sampleQuiz_expired)
  have z: "(0::real) \<le> 0"
    by simp
  from expired_answer_rejected_locally [OF s r z] s r show ?thesis
    by (simp add: joinedPage_fields liveSession_def)
qed

text \<open>
  C4.  The remaining-time query answers from the absolute expiry timestamp whenever
  \<^verbatim>\<open>expires_at\<close> is present and parses to a valid time; it falls back to the server's
  \<^verbatim>\<open>remaining_seconds\<close> snapshot (floored at zero) only when there is no usable expiry
  timestamp; and it answers \<^verbatim>\<open>null\<close> when neither basis is available.  The premise records
  that JavaScript's \<^verbatim>\<open>Date\<close> never parses the empty string.
\<close>

theorem quizRemainingSeconds_prefers_expiry:
  assumes "getTime [] = None"
  shows "(\<forall>s t. expires_at quiz = Some s \<and> getTime s = Some t \<longrightarrow>
            quizRemainingSeconds getTime quiz nowMs
              = Some (max (real_of_int \<lfloor>(t - nowMs) / 1000\<rfloor>) 0))
       \<and> ((expires_at quiz = None \<or> (\<exists>s. expires_at quiz = Some s \<and> getTime s = None)) \<longrightarrow>
            (\<forall>r. remaining_seconds quiz = Some r \<longrightarrow>
               quizRemainingSeconds getTime quiz nowMs = Some (max r 0))
          \<and> (remaining_seconds quiz = None \<longrightarrow>
               quizRemainingSeconds getTime quiz nowMs = None))"
  using assms
  by (auto simp: quizRemainingSeconds_def split: option.splits)

theorem quizRemainingSeconds_prefers_expiry_witness:
  "sampleGetTime [] = None
   \<and> quizRemainingSeconds sampleGetTime sampleQuiz 1767225629500 = Some 30
   \<and> quizRemainingSeconds sampleGetTime
        (sampleQuiz\<lparr>expires_at := Some ''soon''\<rparr>) 1767225629500 = Some 42
   \<and> quizRemainingSeconds sampleGetTime
        (sampleQuiz\<lparr>expires_at := None, remaining_seconds := None\<rparr>) 1767225629500 = None"
proof -
  have e: "sampleGetTime [] = None"
    by (simp add: sampleGetTime_def)
  have t: "sampleGetTime ''2026-01-01T00:01:00Z'' = Some 1767225660000"
    by (simp add: sampleGetTime_def)
  have n: "sampleGetTime ''soon'' = None"
    by (simp add: sampleGetTime_def)
  have fl: "\<lfloor>(1767225660000 - 1767225629500 :: real) / 1000\<rfloor> = 30"
    by simp
  show ?thesis
    using quizRemainingSeconds_prefers_expiry
        [of sampleGetTime sampleQuiz 1767225629500, OF e]
      quizRemainingSeconds_prefers_expiry
        [of sampleGetTime "sampleQuiz\<lparr>expires_at := Some ''soon''\<rparr>" 1767225629500, OF e]
      quizRemainingSeconds_prefers_expiry
        [of sampleGetTime "sampleQuiz\<lparr>expires_at := None, remaining_seconds := None\<rparr>"
          1767225629500, OF e]
      e t n fl
    by (simp add: sampleQuiz_def)
qed

text \<open>Later on the clock, a checkpoint has no more time left than before.\<close>

lemma quizRemainingSeconds_antimono:
  assumes "earlier \<le> later"
  shows "rel_option (\<lambda>before after. after \<le> before)
           (quizRemainingSeconds getTime quiz earlier)
           (quizRemainingSeconds getTime quiz later)"
proof -
  have "\<lfloor>(t - later) / 1000\<rfloor> \<le> \<lfloor>(t - earlier) / 1000\<rfloor>" for t
    using assms by (intro floor_mono) (simp add: divide_right_mono)
  then have "max (real_of_int \<lfloor>(t - later) / 1000\<rfloor>) 0
      \<le> max (real_of_int \<lfloor>(t - earlier) / 1000\<rfloor>) 0" for t
    by (intro max.mono) simp_all
  then show ?thesis
    by (simp add: quizRemainingSeconds_def Let_def split: option.splits)
qed

text \<open>
  C5.  A tick of the quiz clock that reads a time no earlier than the previous one leaves the
  tracked checkpoints as they are and shows, for each of them, a remaining time that is not
  larger than before (and known exactly when it was known before).  When the server's list
  of active checkpoints arrives, the times shown are those computed from the new data alone:
  nothing of the previous countdown is carried over.
\<close>

theorem remaining_time_nonincreasing:
  assumes "quizClock st \<le> now"
  shows "activeQuizzes (quizClock_tick now st) = activeQuizzes st
       \<and> list_all2 (rel_option (\<lambda>before after. after \<le> before))
           (remainingTimes getTime st)
           (remainingTimes getTime (quizClock_tick now st))
       \<and> (session st \<noteq> None \<longrightarrow>
            remainingTimes getTime (loadActiveQuizzes (Inr (Some quizzes)) st)
              = map (\<lambda>quiz. quizRemainingSeconds getTime quiz (quizClock st)) quizzes)"
proof -
  have "list_all2 (rel_option (\<lambda>before after. after \<le> before))
          (map (\<lambda>quiz. quizRemainingSeconds getTime quiz (quizClock st)) qs)
          (map (\<lambda>quiz. quizRemainingSeconds getTime quiz now) qs)" for qs
    using assms
    by (simp add: list_all2_map1 list_all2_map2 list.rel_refl quizRemainingSeconds_antimono)
  then show ?thesis
    by (auto simp: remainingTimes_def quizClock_tick_def loadActiveQuizzes_def)
qed

theorem remaining_time_nonincreasing_witness:
  "quizClock (joinedPage\<lparr>quizClock := 1767225629500, activeQuizzes := [sampleQuiz]\<rparr>)
     \<le> 1767225630500
   \<and> remainingTimes sampleGetTime
        (joinedPage\<lparr>quizClock := 1767225629500, activeQuizzes := [sampleQuiz]\<rparr>) = [Some 30]
   \<and> remainingTimes sampleGetTime
        (quizClock_tick 1767225630500
           (joinedPage\<lparr>quizClock := 1767225629500, activeQuizzes := [sampleQuiz]\<rparr>))
       = [Some 29]
   \<and> remainingTimes sampleGetTime
        (loadActiveQuizzes
           (Inr (Some [sampleQuiz\<lparr>expires_at := None, remaining_seconds := Some 55\<rparr>]))
           (joinedPage\<lparr>quizClock := 1767225629500, activeQuizzes := [sampleQuiz]\<rparr>))
       = [Some 55]"
proof -
  let ?st = "joinedPage\<lparr>quizClock := 1767225629500, activeQuizzes := [sampleQuiz]\<rparr>"
  let ?fresh = "sampleQuiz\<lparr>expires_at := None, remaining_seconds := Some 55\<rparr>"
  have le: "quizClock ?st \<le> 1767225630500"
    by simp
  have live: "session ?st \<noteq> None"
    by (simp add: joinedPage_fields)
  have before: "quizRemainingSeconds sampleGetTime sampleQuiz 1767225629500 = Some 30"
  proof -
    have "\<lfloor>(1767225660000 - 1767225629500 :: real) / 1000\<rfloor> = 30"
      by simp
    then show ?thesis
      by (simp add: quizRemainingSeconds_def sampleQuiz_def sampleGetTime_def)
  qed
  have after: "quizRemainingSeconds sampleGetTime sampleQuiz 1767225630500 = Some 29"
  proof -
    have "\<lfloor>(1767225660000 - 1767225630500 :: real) / 1000\<rfloor> = 29"
      by simp
    then show ?thesis
      by (simp add: quizRemainingSeconds_def sampleQuiz_def sampleGetTime_def)
  qed
  have snapshot: "quizRemainingSeconds sampleGetTime ?fresh 1767225629500 = Some 55"
    by (simp add: quizRemainingSeconds_def sampleQuiz_def)
  from remaining_time_nonincreasing [OF le, of sampleGetTime "[?fresh]"] live
  have "remainingTimes sampleGetTime (loadActiveQuizzes (Inr (Some [?fresh])) ?st)
      = [quizRemainingSeconds sampleGetTime ?fresh (quizClock ?st)]"
    by simp
  then show ?thesis
    using le before after snapshot
    by (simp add: remainingTimes_def quizClock_tick_def)
qed

text \<open>
  Without that premise the property fails: \<^verbatim>\<open>Date.now()\<close> follows the system clock, and a tick
  that reads it ten seconds behind the previous tick, with no new data from the server,
  shows forty seconds left where it showed thirty.
\<close>

theorem remaining_time_nonincreasing_counterexample:
  "remainingTimes sampleGetTime
      (joinedPage\<lparr>quizClock := 1767225629500, activeQuizzes := [sampleQuiz]\<rparr>) = [Some 30]
   \<and> activeQuizzes
        (quizClock_tick 1767225619500
           (joinedPage\<lparr>quizClock := 1767225629500, activeQuizzes := [sampleQuiz]\<rparr>))
       = activeQuizzes (joinedPage\<lparr>quizClock := 1767225629500, activeQuizzes := [sampleQuiz]\<rparr>)
   \<and> remainingTimes sampleGetTime
        (quizClock_tick 1767225619500
           (joinedPage\<lparr>quizClock := 1767225629500, activeQuizzes := [sampleQuiz]\<rparr>))
       = [Some 40]
   \<and> \<not> list_all2 (rel_option (\<lambda>before after. after \<le> before))
         (remainingTimes sampleGetTime
            (joinedPage\<lparr>quizClock := 1767225629500, activeQuizzes := [sampleQuiz]\<rparr>))
         (remainingTimes sampleGetTime
            (quizClock_tick 1767225619500
               (joinedPage\<lparr>quizClock := 1767225629500, activeQuizzes := [sampleQuiz]\<rparr>)))"
proof -
  have before: "quizRemainingSeconds sampleGetTime sampleQuiz 1767225629500 = Some 30"
  proof -
    have "\<lfloor>(1767225660000 - 1767225629500 :: real) / 1000\<rfloor> = 30"
      by simp
    then show ?thesis
      by (simp add: quizRemainingSeconds_def sampleQuiz_def sampleGetTime_def)
  qed
  have after: "quizRemainingSeconds sampleGetTime sampleQuiz 1767225619500 = Some 40"
  proof -
    have "\<lfloor>(1767225660000 - 1767225619500 :: real) / 1000\<rfloor> = 40"
      by simp
    then show ?thesis
      by (simp add: quizRemainingSeconds_def sampleQuiz_def sampleGetTime_def)
  qed
  show ?thesis
    by (simp add: remainingTimes_def quizClock_tick_def before after)
qed

subsection \<open>The engagement sockets\<close>

text \<open>
  C6.  When the connection URL embeds no token (\<^verbatim>\<open>'token='\<close> does not occur in it),
  \<^verbatim>\<open>connectEngagementSocket\<close> constructs no \<^verbatim>\<open>WebSocket\<close> and leaves the handle alone, on the
  student page and on the instructor page alike; and whenever the call gets as far as
  connecting (a live session, joined on the student side, no socket already open or
  connecting), the socket state becomes \<open>ERROR\<close> with the missing-token message.  A call
  that does not get that far returns at one of the two guards that precede the token check
  and changes nothing.
\<close>

theorem connect_refuses_without_token:
  assumes "\<forall>sid. \<not> str_includes (getEngagementWebSocketUrl env sid) ''token=''"
  shows "sockets_opened (connectEngagementSocket env st) = sockets_opened st
       \<and> engagementWsRef (connectEngagementSocket env st) = engagementWsRef st
       \<and> ((\<exists>sess. session st = Some sess \<and> status sess = ''LIVE'') \<and> joined st
           \<and> (case engagementWsRef st of
                 None \<Rightarrow> True
               | Some existing \<Rightarrow>
                   readyState existing \<noteq> WS_OPEN \<and> readyState existing \<noteq> WS_CONNECTING)
           \<longrightarrow> socketState (connectEngagementSocket env st) = SOCKET_ERROR
             \<and> telemetryState (connectEngagementSocket env st) = TELEMETRY_ERROR
             \<and> telemetryMessage (connectEngagementSocket env st)
                 = ''Missing auth token for engagement socket'')
       \<and> (session st = None \<or> (\<exists>sess. session st = Some sess \<and> status sess \<noteq> ''LIVE'')
           \<or> joined st = False
           \<or> (\<exists>existing. engagementWsRef st = Some existing
                 \<and> (readyState existing = WS_OPEN \<or> readyState existing = WS_CONNECTING))
           \<longrightarrow> connectEngagementSocket env st = st)
       \<and> t_sockets_opened (connectEngagementSocket_teacher env tst) = t_sockets_opened tst
       \<and> t_engagementWsRef (connectEngagementSocket_teacher env tst) = t_engagementWsRef tst
       \<and> ((\<exists>sess. t_session tst = Some sess \<and> status sess = ''LIVE'')
           \<and> (case t_engagementWsRef tst of
                 None \<Rightarrow> True
               | Some existing \<Rightarrow>
                   readyState existing \<noteq> WS_OPEN \<and> readyState existing \<noteq> WS_CONNECTING)
           \<longrightarrow> engagementSocketState (connectEngagementSocket_teacher env tst) = SOCKET_ERROR
             \<and> insightsError (connectEngagementSocket_teacher env tst)
                 = ''Missing auth token for live engagement socket'')
       \<and> (t_session tst = None \<or> (\<exists>sess. t_session tst = Some sess \<and> status sess \<noteq> ''LIVE'')
           \<or> (\<exists>existing. t_engagementWsRef tst = Some existing
                 \<and> (readyState existing = WS_OPEN \<or> readyState existing = WS_CONNECTING))
           \<longrightarrow> connectEngagementSocket_teacher env tst = tst)"
proof -
  have student: "sockets_opened (connectEngagementSocket env st) = sockets_opened st"
    "engagementWsRef (connectEngagementSocket env st) = engagementWsRef st"
    using assms by (simp_all add: connectEngagementSocket_def Let_def split: option.splits)
  have student_error: "socketState (connectEngagementSocket env st) = SOCKET_ERROR
      \<and> telemetryState (connectEngagementSocket env st) = TELEMETRY_ERROR
      \<and> telemetryMessage (connectEngagementSocket env st)
          = ''Missing auth token for engagement socket''"
    if "session st = Some sess" "status sess = ''LIVE''" "joined st"
      "case engagementWsRef st of
         None \<Rightarrow> True
       | Some existing \<Rightarrow> readyState existing \<noteq> WS_OPEN \<and> readyState existing \<noteq> WS_CONNECTING"
    for sess
    using assms that by (simp add: connectEngagementSocket_def Let_def split: option.splits)
  have teacher: "t_sockets_opened (connectEngagementSocket_teacher env tst) = t_sockets_opened tst"
    "t_engagementWsRef (connectEngagementSocket_teacher env tst) = t_engagementWsRef tst"
    using assms
    by (simp_all add: connectEngagementSocket_teacher_def Let_def split: option.splits)
  have teacher_error: "engagementSocketState (connectEngagementSocket_teacher env tst) = SOCKET_ERROR
      \<and> insightsError (connectEngagementSocket_teacher env tst)
          = ''Missing auth token for live engagement socket''"
    if "t_session tst = Some sess" "status sess = ''LIVE''"
      "case t_engagementWsRef tst of
         None \<Rightarrow> True
       | Some existing \<Rightarrow> readyState existing \<noteq> WS_OPEN \<and> readyState existing \<noteq> WS_CONNECTING"
    for sess
    using assms that
    by (simp add: connectEngagementSocket_teacher_def Let_def split: option.splits)
  have student_idle: "connectEngagementSocket env st = st"
    if "session st = None \<or> (\<exists>sess. session st = Some sess \<and> status sess \<noteq> ''LIVE'')
        \<or> joined st = False
        \<or> (\<exists>existing. engagementWsRef st = Some existing
              \<and> (readyState existing = WS_OPEN \<or> readyState existing = WS_CONNECTING))"
    using that by (auto simp: connectEngagementSocket_def split: option.splits)
  have teacher_idle: "connectEngagementSocket_teacher env tst = tst"
    if "t_session tst = None \<or> (\<exists>sess. t_session tst = Some sess \<and> status sess \<noteq> ''LIVE'')
        \<or> (\<exists>existing. t_engagementWsRef tst = Some existing
              \<and> (readyState existing = WS_OPEN \<or> readyState existing = WS_CONNECTING))"
    using that by (auto simp: connectEngagementSocket_teacher_def split: option.splits)
  from student student_error student_idle teacher teacher_error teacher_idle show ?thesis
    by blast
qed

lemma bareUrl_no_token: "\<not> str_includes (bareUrl sid) ''token=''"
  by (simp add: str_includes_def bareUrl_def sublist_code)

theorem connect_refuses_without_token_witness:
  "\<not> str_includes (getEngagementWebSocketUrl bareConnect 3) ''token=''
   \<and> sockets_opened (connectEngagementSocket bareConnect (joinedPage\<lparr>engagementWsRef := None\<rparr>))
       = []
   \<and> socketState (connectEngagementSocket bareConnect (joinedPage\<lparr>engagementWsRef := None\<rparr>))
       = SOCKET_ERROR
   \<and> telemetryMessage
        (connectEngagementSocket bareConnect (joinedPage\<lparr>engagementWsRef := None\<rparr>))
       = ''Missing auth token for engagement socket''
   \<and> t_sockets_opened
        (connectEngagementSocket_teacher bareConnect
           (teachingPage\<lparr>t_engagementWsRef := None, t_sockets_opened := []\<rparr>)) = []
   \<and> engagementSocketState
        (connectEngagementSocket_teacher bareConnect
           (teachingPage\<lparr>t_engagementWsRef := None, t_sockets_opened := []\<rparr>)) = SOCKET_ERROR
   \<and> insightsError
        (connectEngagementSocket_teacher bareConnect
           (teachingPage\<lparr>t_engagementWsRef := None, t_sockets_opened := []\<rparr>))
       = ''Missing auth token for live engagement socket''"
proof -
  have bare: "\<forall>sid. \<not> str_includes (getEngagementWebSocketUrl bareConnect sid) ''token=''"
    by (simp add: bareConnect_def bareUrl_no_token)
  have live: "status liveSession = ''LIVE''"
    by (simp add: liveSession_def)
  have opened: "sockets_opened joinedPage = []"
    by (simp add: joinedPage_def initialPage_def)
  from connect_refuses_without_token
    [OF bare, of "joinedPage\<lparr>engagementWsRef := None\<rparr>"
      "teachingPage\<lparr>t_engagementWsRef := None, t_sockets_opened := []\<rparr>"]
    bare live opened
  show ?thesis
    by (simp add: joinedPage_fields teachingPage_def)
qed

text \<open>
  C7.  On both pages \<^verbatim>\<open>connectEngagementSocket\<close> changes nothing at all when the handle it holds
  is a socket whose \<^verbatim>\<open>readyState\<close> is \<open>OPEN\<close> or \<open>CONNECTING\<close>: no socket is constructed, and
  the handle and the displayed state stay as they are.
\<close>

theorem connect_noop_when_open_or_connecting:
  "(engagementWsRef st = Some existing
      \<and> (readyState existing = WS_OPEN \<or> readyState existing = WS_CONNECTING)
      \<longrightarrow> connectEngagementSocket env st = st)
   \<and> (t_engagementWsRef tst = Some existing'
      \<and> (readyState existing' = WS_OPEN \<or> readyState existing' = WS_CONNECTING)
      \<longrightarrow> connectEngagementSocket_teacher env' tst = tst)"
  by (auto simp: connectEngagementSocket_def connectEngagementSocket_teacher_def
      split: option.splits)

theorem connect_noop_when_open_or_connecting_witness:
  "engagementWsRef joinedPage = Some \<lparr>ws_id = 5, ws_url = sampleUrl 3, readyState = WS_OPEN\<rparr>
   \<and> connectEngagementSocket sampleConnect joinedPage = joinedPage
   \<and> t_engagementWsRef (teachingPage\<lparr>t_engagementWsRef :=
         Some \<lparr>ws_id = 9, ws_url = sampleUrl 3, readyState = WS_CONNECTING\<rparr>\<rparr>)
       = Some \<lparr>ws_id = 9, ws_url = sampleUrl 3, readyState = WS_CONNECTING\<rparr>
   \<and> connectEngagementSocket_teacher sampleConnect
        (teachingPage\<lparr>t_engagementWsRef :=
           Some \<lparr>ws_id = 9, ws_url = sampleUrl 3, readyState = WS_CONNECTING\<rparr>\<rparr>)
       = teachingPage\<lparr>t_engagementWsRef :=
           Some \<lparr>ws_id = 9, ws_url = sampleUrl 3, readyState = WS_CONNECTING\<rparr>\<rparr>"
  using connect_noop_when_open_or_connecting
    [of joinedPage "\<lparr>ws_id = 5, ws_url = sampleUrl 3, readyState = WS_OPEN\<rparr>"
      sampleConnect
      "teachingPage\<lparr>t_engagementWsRef :=
         Some \<lparr>ws_id = 9, ws_url = sampleUrl 3, readyState = WS_CONNECTING\<rparr>\<rparr>"
      "\<lparr>ws_id = 9, ws_url = sampleUrl 3, readyState = WS_CONNECTING\<rparr>" sampleConnect]
  by (simp add: joinedPage_fields)

text \<open>
  C9.  With the insights socket open on a live session and the page rendered, a change of
  the topic difficulty makes the next committed render send exactly one
  \<^verbatim>\<open>subscribe_insights\<close> message, carrying the new difficulty, over that socket; a render that
  follows with nothing changed sends nothing and changes nothing.
\<close>

theorem resubscribe_once_per_change:
  assumes sock: "t_engagementWsRef st = Some socket" "readyState socket = WS_OPEN"
    and live: "t_session st = Some sess" "status sess = ''LIVE''"
    and rendered: "committed st = Some (topicDifficulty st, t_session_rev st)"
    and change: "d \<noteq> topicDifficulty st"
  shows "t_sent (render_commit env (setTopicDifficulty d st))
           = t_sent st @ [(ws_id socket, \<lparr>topic_difficulty = d, local_hour = getHours env\<rparr>)]
       \<and> t_sockets_opened (render_commit env (setTopicDifficulty d st)) = t_sockets_opened st
       \<and> t_engagementWsRef (render_commit env (setTopicDifficulty d st)) = Some socket
       \<and> render_commit env' (render_commit env (setTopicDifficulty d st))
           = render_commit env (setTopicDifficulty d st)
       \<and> render_commit env' st = st"
proof -
  have first: "render_commit env (setTopicDifficulty d st)
      = st\<lparr>topicDifficulty := d,
            t_sent := t_sent st
              @ [(ws_id socket, \<lparr>topic_difficulty = d, local_hour = getHours env\<rparr>)],
            committed := Some (d, t_session_rev st)\<rparr>"
    using assms
    by (simp add: render_commit_def setTopicDifficulty_def resubscribeEffect_def Let_def)
  have idle: "render_commit env' s = s"
    if "committed s = Some (topicDifficulty s, t_session_rev s)" for s
    using that by (simp add: render_commit_def Let_def)
  show ?thesis
    using sock by (simp add: first idle rendered)
qed

theorem resubscribe_once_per_change_witness:
  "t_engagementWsRef teachingPage
     = Some \<lparr>ws_id = 9, ws_url = sampleUrl 3, readyState = WS_OPEN\<rparr>
   \<and> t_session teachingPage = Some liveSession
   \<and> committed teachingPage = Some (topicDifficulty teachingPage, t_session_rev teachingPage)
   \<and> HIGH \<noteq> topicDifficulty teachingPage
   \<and> t_sent (render_commit sampleInsights (setTopicDifficulty HIGH teachingPage))
       = [(9, \<lparr>topic_difficulty = HIGH, local_hour = 10\<rparr>)]
   \<and> t_sent (render_commit sampleInsights
               (render_commit sampleInsights (setTopicDifficulty HIGH teachingPage)))
       = [(9, \<lparr>topic_difficulty = HIGH, local_hour = 10\<rparr>)]"
proof -
  have sock: "t_engagementWsRef teachingPage
      = Some \<lparr>ws_id = 9, ws_url = sampleUrl 3, readyState = WS_OPEN\<rparr>"
    "readyState \<lparr>ws_id = 9, ws_url = sampleUrl 3, readyState = WS_OPEN\<rparr> = WS_OPEN"
    and live: "t_session teachingPage = Some liveSession" "status liveSession = ''LIVE''"
    and rendered: "committed teachingPage
      = Some (topicDifficulty teachingPage, t_session_rev teachingPage)"
    and change: "HIGH \<noteq> topicDifficulty teachingPage"
    by (simp_all add: teachingPage_def liveSession_def)
  note once = resubscribe_once_per_change
    [OF sock live rendered change, of sampleInsights sampleInsights]
  have "t_sent (render_commit sampleInsights (setTopicDifficulty HIGH teachingPage))
      = t_sent teachingPage @ [(9, \<lparr>topic_difficulty = HIGH, local_hour = 10\<rparr>)]"
    using once by (simp add: sampleInsights_def)
  moreover have "render_commit sampleInsights
        (render_commit sampleInsights (setTopicDifficulty HIGH teachingPage))
      = render_commit sampleInsights (setTopicDifficulty HIGH teachingPage)"
    using once by blast
  moreover have "t_sent teachingPage = []"
    by (simp add: teachingPage_def)
  ultimately show ?thesis
    using sock(1) live(1) rendered change by simp
qed

end
